theory Spec2Isabelle
  imports Complex_Main "HOL-Library.Log_Nat"
begin

section \<open>Python numbers\<close>

text \<open>
  The metrics of \<^verbatim>\<open>mt5_bridge.py\<close> are Python floats (IEEE 754 binary64). A float is
  modelled by the rational number it denotes, and every floating-point operation by the
  exact operation followed by rounding to the nearest number with a 53-bit significand,
  ties to even. The exponent range is not bounded: infinities, NaN and subnormal numbers
  are outside the model.
\<close>

text \<open>Python's \<^verbatim>\<open>round(x)\<close> of a float: the nearest integer, a tie going to the even one.\<close>

definition round_half_even :: "rat \<Rightarrow> int" where
  "round_half_even x =
     (let f = \<lfloor>x\<rfloor>; d = x - of_int f
      in if d < 1 / 2 then f else if 1 / 2 < d then f + 1 else if even f then f else f + 1)"

text \<open>The binary exponent of a positive rational: the \<open>e\<close> with \<open>2 ^ e \<le> x < 2 ^ (e + 1)\<close>.\<close>

definition ilog2 :: "rat \<Rightarrow> int" where
  "ilog2 x =
     (let (a, b) = quotient_of x; d = bitlen a - bitlen b
      in if 2 powi d \<le> x then d else d - 1)"

text \<open>Rounding to binary64: the significand \<open>x / 2 ^ e\<close> is scaled into \<open>[2 ^ 52, 2 ^ 53)\<close>.\<close>

definition fl :: "rat \<Rightarrow> rat" where
  "fl x =
     (if x = 0 then 0
      else let e = ilog2 \<bar>x\<bar> - 52
           in of_int (round_half_even (x / 2 powi e)) * 2 powi e)"

definition fadd :: "rat \<Rightarrow> rat \<Rightarrow> rat" where
  "fadd a b = fl (a + b)"

definition fmul :: "rat \<Rightarrow> rat \<Rightarrow> rat" where
  "fmul a b = fl (a * b)"

text \<open>
  True division \<^verbatim>\<open>a / b\<close>, of floats and of ints alike (Python rounds the quotient of two
  ints correctly). Every division of the source is guarded against a zero divisor.
\<close>

definition fdiv :: "rat \<Rightarrow> rat \<Rightarrow> rat" where
  "fdiv a b = fl (a / b)"

subsection \<open>pandas reductions of a float column\<close>

text \<open>
  \<^verbatim>\<open>Series.sum()\<close> is modelled as adding the cells from left to right, starting from 0
  (the sum of an empty column is 0), each addition rounded. NumPy adds a column of fewer
  than eight cells in this way and a longer one in blocks, pairwise, which can change the
  last bits of its sum; the sums of the concrete inputs below are exact in every order,
  and of the sum of an arbitrary column only the sign and the guard on it are used. \<^verbatim>\<open>Series.mean()\<close> divides
  the sum by the number of cells. \<^verbatim>\<open>max\<close> and \<^verbatim>\<open>min\<close> are only taken of non-empty columns.
\<close>

definition series_sum :: "rat list \<Rightarrow> rat" where
  "series_sum xs = foldl fadd 0 xs"

definition series_mean :: "rat list \<Rightarrow> rat" where
  "series_mean xs = fdiv (series_sum xs) (of_nat (length xs))"

fun series_max :: "rat list \<Rightarrow> rat" where
  "series_max (x # xs) = foldl max x xs"

fun series_min :: "rat list \<Rightarrow> rat" where
  "series_min (x # xs) = foldl min x xs"

section \<open>Python strings and \<^verbatim>\<open>datetime.timedelta\<close>\<close>

text \<open>The exceptions that the modelled code can raise.\<close>

datatype py_error = OverflowError | TypeError | IndexError

text \<open>\<^verbatim>\<open>"%d" % n\<close> for a natural number and for an integer.\<close>

fun str_nat :: "nat \<Rightarrow> string" where
  "str_nat n =
     (if n < 10 then [''0123456789'' ! n]
      else str_nat (n div 10) @ [''0123456789'' ! (n mod 10)])"

declare str_nat.simps [simp del]

definition str_int :: "int \<Rightarrow> string" where
  "str_int i = (if i < 0 then CHR ''-'' # str_nat (nat (- i)) else str_nat (nat i))"

text \<open>\<^verbatim>\<open>"%0wd" % n\<close> for a non-negative \<open>n\<close>: padded with zeros to the width \<open>w\<close>.\<close>

definition zero_pad :: "nat \<Rightarrow> int \<Rightarrow> string" where
  "zero_pad w n = (let s = str_int n in replicate (w - length s) CHR ''0'' @ s)"

record timedelta =
  days :: int
  seconds :: int
  microseconds :: int

text \<open>
  \<^verbatim>\<open>timedelta(seconds=x)\<close> for a float \<open>x\<close>: \<^verbatim>\<open>modf\<close> splits \<open>x\<close> into its whole and its
  fractional part, the fractional part times \<^verbatim>\<open>1e6\<close> is rounded to whole microseconds
  (half to even), and the total is normalised to \<open>0 \<le> microseconds < 10 ^ 6\<close> and
  \<open>0 \<le> seconds < 86400\<close>. More than 999999999 days raise \<^verbatim>\<open>OverflowError\<close>.
\<close>

definition timedelta_of_seconds :: "rat \<Rightarrow> py_error + timedelta" where
  "timedelta_of_seconds x =
     (let whole = (if 0 \<le> x then \<lfloor>x\<rfloor> else \<lceil>x\<rceil>);
          secondsfrac = x - of_int whole;
          usdouble = fmul secondsfrac 1000000;
          us = round_half_even usdouble;
          s = whole + us div 1000000;
          d = s div 86400
      in if 999999999 < \<bar>d\<bar> then Inl OverflowError
         else Inr \<lparr>days = d, seconds = s mod 86400, microseconds = us mod 1000000\<rparr>)"

text \<open>\<^verbatim>\<open>timedelta.__str__\<close>.\<close>

definition timedelta_str :: "timedelta \<Rightarrow> string" where
  "timedelta_str td =
     (let mm = seconds td div 60; ss = seconds td mod 60;
          hh = mm div 60; mm = mm mod 60;
          s = str_int hh @ '':'' @ zero_pad 2 mm @ '':'' @ zero_pad 2 ss;
          s = (if days td \<noteq> 0
               then str_int (days td) @ '' day'' @ (if \<bar>days td\<bar> \<noteq> 1 then ''s'' else [])
                    @ '', '' @ s
               else s);
          s = (if microseconds td \<noteq> 0 then s @ ''.'' @ zero_pad 6 (microseconds td) else s)
      in s)"

text \<open>\<^verbatim>\<open>s.split('.')[0]\<close>: the part of \<open>s\<close> before its first dot, all of \<open>s\<close> when it has none.\<close>

definition split_dot_first :: "string \<Rightarrow> string" where
  "split_dot_first s = takeWhile (\<lambda>c. c \<noteq> CHR ''.'') s"

section \<open>The data of the metrics engine\<close>

text \<open>The account snapshot \<^verbatim>\<open>account_info\<close>, with the four attributes that are read.\<close>

record account_info =
  balance :: rat
  equity :: rat
  profit :: rat
  margin_level :: rat

text \<open>
  A row of the trade frame. \<open>entry\<close> is compared with the constants
  \<^verbatim>\<open>mt5.ORDER_TYPE_BUY\<close> and \<^verbatim>\<open>mt5.ORDER_TYPE_SELL\<close> of the MetaTrader5 package, which
  are 0 and 1. A timestamp is an integer, seconds since the epoch, or missing: \<open>None\<close> is
  the cell without a value, which pandas holds as NaN.
\<close>

record deal =
  profit :: rat
  volume :: rat
  entry :: int
  time_setup :: "int option"
  time_update :: "int option"

definition ORDER_TYPE_BUY :: int where
  "ORDER_TYPE_BUY = 0"

definition ORDER_TYPE_SELL :: int where
  "ORDER_TYPE_SELL = 1"

text \<open>
  The frame \<^verbatim>\<open>trades_df\<close>: its rows in order, and whether it has the columns
  \<^verbatim>\<open>time_setup\<close> and \<^verbatim>\<open>time_update\<close>. The tuples of \<^verbatim>\<open>itertuples()\<close> have one
  attribute for each column of the frame, so \<^verbatim>\<open>hasattr(trade, 'time_update')\<close> holds of
  every row of a frame with that column, also of a row whose cell is missing, and of no
  row of a frame without it; where a column is absent the field of the row is not read.
  The columns \<^verbatim>\<open>profit\<close>, \<^verbatim>\<open>volume\<close> and \<^verbatim>\<open>entry\<close> are those of every frame with a row.
\<close>

record trades_df =
  rows :: "deal list"
  has_time_setup :: bool
  has_time_update :: bool

text \<open>A metric value is a number or a string; the key \<^verbatim>\<open>'value'\<close> is \<open>metric_value\<close>.\<close>

datatype py_value = Num rat | Str string

record metric =
  name :: string
  metric_value :: py_value
  isCustom :: bool

text \<open>The returned dictionary, with its keys \<^verbatim>\<open>'default'\<close> and \<^verbatim>\<open>'custom'\<close>.\<close>

record metrics =
  default_metrics :: "metric list"
  custom_metrics :: "metric list"

subsection \<open>Durations with missing timestamps\<close>

text \<open>
  \<^verbatim>\<open>trade.time_update - trade.time_setup\<close>: the difference of two timestamps, and NaN when
  one of them is missing. The difference of two integers is exact.
\<close>

fun nan_sub :: "int option \<Rightarrow> int option \<Rightarrow> int option" where
  "nan_sub (Some a) (Some b) = Some (a - b)"
| "nan_sub _ _ = None"

fun nan_add :: "int option \<Rightarrow> int option \<Rightarrow> int option" where
  "nan_add (Some a) (Some b) = Some (a + b)"
| "nan_add _ _ = None"

text \<open>
  Python's \<^verbatim>\<open>sum(xs)\<close>: it starts from 0 and adds from left to right, so that one NaN makes
  the sum NaN. A frame with a missing cell holds the other cells of that column as
  floats; this changes nothing, since the sum is NaN then.
\<close>

definition py_sum :: "int option list \<Rightarrow> int option" where
  "py_sum xs = foldl nan_add (Some 0) xs"

text \<open>\<^verbatim>\<open>s / n\<close> for a sum \<open>s\<close> and a length \<open>n\<close>: the rounded quotient, NaN for NaN.\<close>

fun nan_div :: "int option \<Rightarrow> nat \<Rightarrow> rat option" where
  "nan_div (Some s) n = Some (fdiv (of_int s) (of_nat n))"
| "nan_div None n = None"

section \<open>The metrics engine\<close>

text \<open>
  \<^verbatim>\<open>calculate_metrics(trades_df, account_info)\<close>, line by line. \<^verbatim>\<open>trades_df.empty\<close> holds of
  a frame without rows. The only statement that can raise is the construction of the
  \<^verbatim>\<open>timedelta\<close>; nothing before it has an effect, so the exception is the result.
  \<open>avg_duration_seconds\<close> is a float or NaN (\<open>None\<close>), and \<^verbatim>\<open>avg_duration_seconds > 0\<close> is
  false of NaN.
\<close>

definition calculate_metrics :: "trades_df \<Rightarrow> account_info \<Rightarrow> py_error + metrics" where
  "calculate_metrics trades_df account_info =
     (if rows trades_df = [] then
        Inr \<lparr>default_metrics = [
               \<lparr>name = ''Lots'', metric_value = Num 0, isCustom = False\<rparr>,
               \<lparr>name = ''Avg. RRR'', metric_value = Num 0, isCustom = False\<rparr>,
               \<lparr>name = ''Win Rate'', metric_value = Num 0, isCustom = False\<rparr>,
               \<lparr>name = ''Loss Rate'', metric_value = Num 0, isCustom = False\<rparr>,
               \<lparr>name = ''Profit Factor'', metric_value = Num 0, isCustom = False\<rparr>,
               \<lparr>name = ''Best Trade'', metric_value = Num 0, isCustom = False\<rparr>,
               \<lparr>name = ''Worst Trade'', metric_value = Num 0, isCustom = False\<rparr>,
               \<lparr>name = ''Long Won'', metric_value = Num 0, isCustom = False\<rparr>,
               \<lparr>name = ''Short Won'', metric_value = Num 0, isCustom = False\<rparr>,
               \<lparr>name = ''Gross Profit'', metric_value = Num 0, isCustom = False\<rparr>,
               \<lparr>name = ''Gross Loss'', metric_value = Num 0, isCustom = False\<rparr>,
               \<lparr>name = ''Average Trade Duration'', metric_value = Str ''0h'', isCustom = False\<rparr>,
               \<lparr>name = ''Average Profit per Trade'', metric_value = Num 0, isCustom = False\<rparr>,
               \<lparr>name = ''Average Loss per Trade'', metric_value = Num 0, isCustom = False\<rparr>],
             custom_metrics = [
               \<lparr>name = ''Custom ROI'',
                metric_value = Num (if balance account_info > 0
                  then fmul (fdiv (account_info.profit account_info) (balance account_info)) 100
                  else 0),
                isCustom = True\<rparr>]\<rparr>
      else
        let profitable_trades = filter (\<lambda>t. deal.profit t > 0) (rows trades_df);
            losing_trades = filter (\<lambda>t. deal.profit t < 0) (rows trades_df);
            total_trades = length (rows trades_df);
            lots = (if rows trades_df \<noteq> [] then series_sum (map volume (rows trades_df)) else 0);
            win_rate = (if total_trades > 0
              then fmul (fdiv (of_nat (length profitable_trades)) (of_nat total_trades)) 100
              else 0);
            loss_rate = (if total_trades > 0
              then fmul (fdiv (of_nat (length losing_trades)) (of_nat total_trades)) 100
              else 0);
            gross_profit = series_sum (map deal.profit profitable_trades);
            gross_loss = \<bar>series_sum (map deal.profit losing_trades)\<bar>;
            profit_factor = (if gross_loss > 0 then fdiv gross_profit gross_loss else 0);
            best_trade = (if profitable_trades \<noteq> []
              then series_max (map deal.profit profitable_trades) else 0);
            worst_trade = (if losing_trades \<noteq> []
              then series_min (map deal.profit losing_trades) else 0);
            long_trades = filter (\<lambda>t. entry t = ORDER_TYPE_BUY) (rows trades_df);
            short_trades = filter (\<lambda>t. entry t = ORDER_TYPE_SELL) (rows trades_df);
            long_won = (if length long_trades > 0
              then fmul (fdiv (of_nat (length (filter (\<lambda>t. deal.profit t > 0) long_trades)))
                              (of_nat (length long_trades))) 100
              else 0);
            short_won = (if length short_trades > 0
              then fmul (fdiv (of_nat (length (filter (\<lambda>t. deal.profit t > 0) short_trades)))
                              (of_nat (length short_trades))) 100
              else 0);
            trade_durations = map (\<lambda>t. nan_sub (time_update t) (time_setup t))
              (filter (\<lambda>t. has_time_update trades_df \<and> has_time_setup trades_df)
                 (rows trades_df));
            avg_duration_seconds = (if trade_durations \<noteq> []
              then nan_div (py_sum trade_durations) (length trade_durations)
              else Some 0);
            avg_duration_hours = (case avg_duration_seconds of
                None \<Rightarrow> Inr ''0h''
              | Some seconds_v \<Rightarrow>
                  if seconds_v > 0
                  then (case timedelta_of_seconds seconds_v of
                          Inl e \<Rightarrow> Inl e
                        | Inr td \<Rightarrow> Inr (split_dot_first (timedelta_str td)))
                  else Inr ''0h'');
            avg_profit_per_trade = (if profitable_trades \<noteq> []
              then series_mean (map deal.profit profitable_trades) else 0);
            avg_loss_per_trade = (if losing_trades \<noteq> []
              then series_mean (map deal.profit losing_trades) else 0);
            avg_rrr = (if avg_loss_per_trade \<noteq> 0
              then fdiv \<bar>avg_profit_per_trade\<bar> \<bar>avg_loss_per_trade\<bar> else 0)
        in case avg_duration_hours of
             Inl e \<Rightarrow> Inl e
           | Inr duration \<Rightarrow>
        Inr \<lparr>default_metrics = [
               \<lparr>name = ''Lots'', metric_value = Num lots, isCustom = False\<rparr>,
               \<lparr>name = ''Avg. RRR'', metric_value = Num avg_rrr, isCustom = False\<rparr>,
               \<lparr>name = ''Win Rate'', metric_value = Num win_rate, isCustom = False\<rparr>,
               \<lparr>name = ''Loss Rate'', metric_value = Num loss_rate, isCustom = False\<rparr>,
               \<lparr>name = ''Profit Factor'', metric_value = Num profit_factor, isCustom = False\<rparr>,
               \<lparr>name = ''Best Trade'', metric_value = Num best_trade, isCustom = False\<rparr>,
               \<lparr>name = ''Worst Trade'', metric_value = Num worst_trade, isCustom = False\<rparr>,
               \<lparr>name = ''Long Won'', metric_value = Num long_won, isCustom = False\<rparr>,
               \<lparr>name = ''Short Won'', metric_value = Num short_won, isCustom = False\<rparr>,
               \<lparr>name = ''Gross Profit'', metric_value = Num gross_profit, isCustom = False\<rparr>,
               \<lparr>name = ''Gross Loss'', metric_value = Num gross_loss, isCustom = False\<rparr>,
               \<lparr>name = ''Average Trade Duration'', metric_value = Str duration,
                isCustom = False\<rparr>,
               \<lparr>name = ''Average Profit per Trade'', metric_value = Num avg_profit_per_trade,
                isCustom = False\<rparr>,
               \<lparr>name = ''Average Loss per Trade'', metric_value = Num avg_loss_per_trade,
                isCustom = False\<rparr>],
             custom_metrics = [
               \<lparr>name = ''Custom ROI'',
                metric_value = Num (if balance account_info > 0
                  then fmul (fdiv (account_info.profit account_info) (balance account_info)) 100
                  else 0),
                isCustom = True\<rparr>,
               \<lparr>name = ''Equity to Balance Ratio'',
                metric_value = Num (if balance account_info > 0
                  then fmul (fdiv (equity account_info) (balance account_info)) 100
                  else 0),
                isCustom = True\<rparr>,
               \<lparr>name = ''Margin Level'',
                metric_value = Num (if margin_level account_info > 0
                  then margin_level account_info else 0),
                isCustom = True\<rparr>]\<rparr>)"

text \<open>The value of the first metric of a list that bears a name.\<close>

definition metric_named :: "string \<Rightarrow> metric list \<Rightarrow> py_value option" where
  "metric_named n ms = map_option metric_value (find (\<lambda>m. name m = n) ms)"

text \<open>
  The value that a result of \<open>calculate_metrics\<close> gives a metric name, in either of its
  lists; there is none when the call raised.
\<close>

definition returned_metric :: "string \<Rightarrow> py_error + metrics \<Rightarrow> py_value option" where
  "returned_metric n r =
     (case r of Inl e \<Rightarrow> None | Inr m \<Rightarrow> metric_named n (default_metrics m @ custom_metrics m))"

subsection \<open>The duration format\<close>

text \<open>
  The mean of \<^verbatim>\<open>time_update - time_setup\<close> over the rows of a frame, as the float that
  \<^verbatim>\<open>sum(trade_durations) / len(trade_durations)\<close> is: NaN (\<open>None\<close>) as soon as one row lacks
  a timestamp.
\<close>

definition mean_duration :: "trades_df \<Rightarrow> rat option" where
  "mean_duration df =
     nan_div (py_sum (map (\<lambda>t. nan_sub (time_update t) (time_setup t)) (rows df)))
       (length (rows df))"

text \<open>
  The whole seconds of a non-negative float of seconds once it is rounded to microseconds:
  they are the whole part of the float, and one more when its fractional part rounds up
  to a full second.
\<close>

definition whole_seconds :: "rat \<Rightarrow> int" where
  "whole_seconds x =
     \<lfloor>x\<rfloor> + round_half_even (fmul (x - of_int \<lfloor>x\<rfloor>) 1000000) div 1000000"

text \<open>\<^verbatim>\<open>H:MM:SS\<close> with as many hours as there are: the format the specification names.\<close>

definition hmmss :: "int \<Rightarrow> string" where
  "hmmss s =
     str_int (s div 3600) @ '':'' @ zero_pad 2 (s div 60 mod 60) @ '':'' @ zero_pad 2 (s mod 60)"

text \<open>
  \<^verbatim>\<open>H:MM:SS\<close> below one day, and \<^verbatim>\<open>D day, H:MM:SS\<close> or \<^verbatim>\<open>D days, H:MM:SS\<close> with the
  time of day from one day on.
\<close>

definition duration_str :: "int \<Rightarrow> string" where
  "duration_str s =
     (if s < 86400 then hmmss s
      else str_int (s div 86400) @ '' day'' @ (if s div 86400 = 1 then [] else ''s'')
           @ '', '' @ hmmss (s mod 86400))"

text \<open>
  The frames on which the engine raises: those with a row and both timestamp columns
  whose mean duration is positive and longer than 999999999 days, the most that a
  \<^verbatim>\<open>timedelta\<close> holds.
\<close>

definition duration_overflows :: "trades_df \<Rightarrow> bool" where
  "duration_overflows df =
     (rows df \<noteq> [] \<and> has_time_update df \<and> has_time_setup df
      \<and> (case mean_duration df of
            None \<Rightarrow> False
          | Some a \<Rightarrow> 0 < a \<and> 999999999 < whole_seconds a div 86400))"

subsection \<open>The average trade duration of the specification\<close>

text \<open>
  The specification takes the mean over exactly the records in which both timestamps are
  present, and formats it as \<^verbatim>\<open>H:MM:SS\<close> with unbounded hours; the string is \<^verbatim>\<open>0h\<close> when no
  duration could be computed or the mean is not positive. A record has a timestamp when
  the frame has the column and the cell of the record holds a value. The mean is rounded
  to whole seconds as the code rounds it, so that the two differ only in what the
  specification says.
\<close>

fun spec_duration :: "int option \<Rightarrow> int option \<Rightarrow> int list" where
  "spec_duration (Some u) (Some s) = [u - s]"
| "spec_duration _ _ = []"

definition spec_durations :: "trades_df \<Rightarrow> int list" where
  "spec_durations df =
     (if has_time_update df \<and> has_time_setup df
      then concat (map (\<lambda>t. spec_duration (time_update t) (time_setup t)) (rows df))
      else [])"

definition spec_average_trade_duration :: "trades_df \<Rightarrow> string" where
  "spec_average_trade_duration df =
     (let ds = spec_durations df
      in if ds = [] then ''0h''
         else let mean = fdiv (of_int (sum_list ds)) (of_nat (length ds))
              in if mean \<le> 0 then ''0h'' else hmmss (whole_seconds mean))"

section \<open>The handler of \<^verbatim>\<open>POST /connect\<close>\<close>

text \<open>
  The JSON body as \<^verbatim>\<open>data.get\<close> reads it. \<^verbatim>\<open>data.get(key)\<close> is \<open>None\<close> for a key that is
  absent or null. \<^verbatim>\<open>data.get('path', default)\<close> gives the default only for an absent key,
  so \<open>path\<close> is \<open>None\<close> for the absent key, \<open>Some None\<close> for null and \<open>Some (Some p)\<close> for a
  string. The body has the types of the interface: an integer login and strings.
\<close>

record connect_body =
  login :: "int option"
  password :: "string option"
  server :: "string option"
  path :: "string option option"

text \<open>
  The terminal is the MetaTrader5 package, outside the repository. Its answers to the
  calls of one request are given, and the handler's effect on it is the list of the
  calls it made, in order. The arguments of \<^verbatim>\<open>history_deals_get\<close> (the last 30 days before
  the current time) and the output of \<^verbatim>\<open>print\<close> are left out.
\<close>

record terminal =
  initialize_ok :: bool
  last_error :: string
  account :: "account_info option"
  history_deals :: "deal list option"

datatype mt5_call =
  Shutdown
  | Initialize "string option" int "string option" "string option"
  | Last_error
  | Account_info
  | History_deals_get

record response =
  status :: nat
  success :: bool
  error :: "string option"
  metrics :: "metrics option"

record handler_result =
  outcome :: "py_error + response"
  calls :: "mt5_call list"

text \<open>The default of \<^verbatim>\<open>data.get('path', ...)\<close>; \<open>CHR 0x5C\<close> is the backslash.\<close>

definition default_path :: string where
  "default_path =
     ''C:'' @ [CHR 0x5C] @ ''Users'' @ [CHR 0x5C] @ ''Administrator'' @ [CHR 0x5C] @ ''AppData''
     @ [CHR 0x5C] @ ''Roaming'' @ [CHR 0x5C] @ ''MetaTrader 5'' @ [CHR 0x5C] @ ''terminal64.exe''"

text \<open>The truth value of a string or \<^verbatim>\<open>None\<close>: false for \<^verbatim>\<open>None\<close> and for the empty string.\<close>

fun truthy :: "string option \<Rightarrow> bool" where
  "truthy None = False"
| "truthy (Some s) = (s \<noteq> [])"

text \<open>
  \<^verbatim>\<open>connect_mt5()\<close>; the local variables \<^verbatim>\<open>login\<close>, \<^verbatim>\<open>password\<close>, \<^verbatim>\<open>server\<close> and
  \<^verbatim>\<open>path\<close> are \<open>login_v\<close>, \<open>password_v\<close>, \<open>server_v\<close> and \<open>path_v\<close>.
  \<^verbatim>\<open>int(data.get('login'))\<close> is evaluated first and raises
  \<^verbatim>\<open>TypeError\<close> on \<^verbatim>\<open>None\<close>. The frame built from the deals of the terminal has the
  columns of a deal, which has neither \<^verbatim>\<open>time_setup\<close> nor \<^verbatim>\<open>time_update\<close>;
  \<^verbatim>\<open>history[0]\<close> raises \<^verbatim>\<open>IndexError\<close> on an empty tuple of deals.
\<close>

definition connect_mt5 :: "terminal \<Rightarrow> connect_body \<Rightarrow> handler_result" where
  "connect_mt5 mt5 data =
     (case login data of
        None \<Rightarrow> \<lparr>outcome = Inl TypeError, calls = []\<rparr>
      | Some login_v \<Rightarrow>
          let password_v = password data;
              server_v = server data;
              path_v = (case path data of None \<Rightarrow> Some default_path | Some p \<Rightarrow> p)
          in if \<not> (login_v \<noteq> 0 \<and> truthy password_v \<and> truthy server_v) then
               \<lparr>outcome = Inr \<lparr>status = 400, success = False,
                                error = Some ''Missing required credentials'', metrics = None\<rparr>,
                calls = []\<rparr>
             else if \<not> initialize_ok mt5 then
               \<lparr>outcome = Inr \<lparr>status = 400, success = False,
                                error = Some (last_error mt5), metrics = None\<rparr>,
                calls = [Shutdown, Initialize path_v login_v password_v server_v, Last_error]\<rparr>
             else
               (case account mt5 of
                  None \<Rightarrow>
                    \<lparr>outcome = Inr \<lparr>status = 400, success = False,
                                     error = Some (last_error mt5), metrics = None\<rparr>,
                     calls = [Shutdown, Initialize path_v login_v password_v server_v, Account_info,
                              Last_error, Shutdown]\<rparr>
                | Some account_info \<Rightarrow>
                    (case (case history_deals mt5 of
                             None \<Rightarrow> Inr \<lparr>rows = [], has_time_setup = False,
                                            has_time_update = False\<rparr>
                           | Some [] \<Rightarrow> Inl IndexError
                           | Some (h # hs) \<Rightarrow> Inr \<lparr>rows = h # hs, has_time_setup = False,
                                                   has_time_update = False\<rparr>) of
                       Inl e \<Rightarrow>
                         \<lparr>outcome = Inl e,
                          calls = [Shutdown, Initialize path_v login_v password_v server_v,
                                   Account_info, History_deals_get]\<rparr>
                     | Inr trades_df \<Rightarrow>
                         (case calculate_metrics trades_df account_info of
                            Inl e \<Rightarrow>
                              \<lparr>outcome = Inl e,
                               calls = [Shutdown, Initialize path_v login_v password_v server_v,
                                        Account_info, History_deals_get]\<rparr>
                          | Inr m \<Rightarrow>
                              \<lparr>outcome = Inr \<lparr>status = 200, success = True, error = None,
                                               metrics = Some m\<rparr>,
                               calls = [Shutdown, Initialize path_v login_v password_v server_v,
                                        Account_info, History_deals_get, Shutdown]\<rparr>))))"

section \<open>Concrete inputs\<close>

text \<open>
  The scenario of the specification: a winning long trade of 1 lot and a losing short
  trade of 2 lots, in a frame without timestamp columns.
\<close>

definition scenario_records :: trades_df where
  "scenario_records =
     \<lparr>rows = [\<lparr>profit = 100, volume = 1, entry = ORDER_TYPE_BUY,
                time_setup = None, time_update = None\<rparr>,
               \<lparr>profit = - 50, volume = 2, entry = ORDER_TYPE_SELL,
                time_setup = None, time_update = None\<rparr>],
      has_time_setup = False, has_time_update = False\<rparr>"

definition scenario_account :: account_info where
  "scenario_account =
     \<lparr>balance = 1000, equity = 1050, account_info.profit = 50, margin_level = 200\<rparr>"

definition scenario_result :: metrics where
  "scenario_result =
     \<lparr>default_metrics = [
        \<lparr>name = ''Lots'', metric_value = Num 3, isCustom = False\<rparr>,
        \<lparr>name = ''Avg. RRR'', metric_value = Num 2, isCustom = False\<rparr>,
        \<lparr>name = ''Win Rate'', metric_value = Num 50, isCustom = False\<rparr>,
        \<lparr>name = ''Loss Rate'', metric_value = Num 50, isCustom = False\<rparr>,
        \<lparr>name = ''Profit Factor'', metric_value = Num 2, isCustom = False\<rparr>,
        \<lparr>name = ''Best Trade'', metric_value = Num 100, isCustom = False\<rparr>,
        \<lparr>name = ''Worst Trade'', metric_value = Num (- 50), isCustom = False\<rparr>,
        \<lparr>name = ''Long Won'', metric_value = Num 100, isCustom = False\<rparr>,
        \<lparr>name = ''Short Won'', metric_value = Num 0, isCustom = False\<rparr>,
        \<lparr>name = ''Gross Profit'', metric_value = Num 100, isCustom = False\<rparr>,
        \<lparr>name = ''Gross Loss'', metric_value = Num 50, isCustom = False\<rparr>,
        \<lparr>name = ''Average Trade Duration'', metric_value = Str ''0h'', isCustom = False\<rparr>,
        \<lparr>name = ''Average Profit per Trade'', metric_value = Num 100, isCustom = False\<rparr>,
        \<lparr>name = ''Average Loss per Trade'', metric_value = Num (- 50), isCustom = False\<rparr>],
      custom_metrics = [
        \<lparr>name = ''Custom ROI'', metric_value = Num 5, isCustom = True\<rparr>,
        \<lparr>name = ''Equity to Balance Ratio'', metric_value = Num 105, isCustom = True\<rparr>,
        \<lparr>name = ''Margin Level'', metric_value = Num 200, isCustom = True\<rparr>]\<rparr>"

text \<open>A frame without rows.\<close>

definition no_records :: trades_df where
  "no_records = \<lparr>rows = [], has_time_setup = False, has_time_update = False\<rparr>"

text \<open>
  One winning trade that was open for \<open>d\<close> seconds, in a frame with both timestamp
  columns.
\<close>

definition single_trade :: "int \<Rightarrow> trades_df" where
  "single_trade d =
     \<lparr>rows = [\<lparr>profit = 100, volume = 1, entry = ORDER_TYPE_BUY,
                time_setup = Some 1700000000, time_update = Some (1700000000 + d)\<rparr>],
      has_time_setup = True, has_time_update = True\<rparr>"

definition single_trade_result :: "string \<Rightarrow> metrics" where
  "single_trade_result duration =
     \<lparr>default_metrics = [
        \<lparr>name = ''Lots'', metric_value = Num 1, isCustom = False\<rparr>,
        \<lparr>name = ''Avg. RRR'', metric_value = Num 0, isCustom = False\<rparr>,
        \<lparr>name = ''Win Rate'', metric_value = Num 100, isCustom = False\<rparr>,
        \<lparr>name = ''Loss Rate'', metric_value = Num 0, isCustom = False\<rparr>,
        \<lparr>name = ''Profit Factor'', metric_value = Num 0, isCustom = False\<rparr>,
        \<lparr>name = ''Best Trade'', metric_value = Num 100, isCustom = False\<rparr>,
        \<lparr>name = ''Worst Trade'', metric_value = Num 0, isCustom = False\<rparr>,
        \<lparr>name = ''Long Won'', metric_value = Num 100, isCustom = False\<rparr>,
        \<lparr>name = ''Short Won'', metric_value = Num 0, isCustom = False\<rparr>,
        \<lparr>name = ''Gross Profit'', metric_value = Num 100, isCustom = False\<rparr>,
        \<lparr>name = ''Gross Loss'', metric_value = Num 0, isCustom = False\<rparr>,
        \<lparr>name = ''Average Trade Duration'', metric_value = Str duration, isCustom = False\<rparr>,
        \<lparr>name = ''Average Profit per Trade'', metric_value = Num 100, isCustom = False\<rparr>,
        \<lparr>name = ''Average Loss per Trade'', metric_value = Num 0, isCustom = False\<rparr>],
      custom_metrics = [
        \<lparr>name = ''Custom ROI'', metric_value = Num 5, isCustom = True\<rparr>,
        \<lparr>name = ''Equity to Balance Ratio'', metric_value = Num 105, isCustom = True\<rparr>,
        \<lparr>name = ''Margin Level'', metric_value = Num 200, isCustom = True\<rparr>]\<rparr>"

text \<open>
  Two trades in a frame with both timestamp columns: the first was open for 5400 seconds,
  the second lacks its \<open>time_update\<close>.
\<close>

definition missing_timestamp :: trades_df where
  "missing_timestamp =
     \<lparr>rows = [\<lparr>profit = 100, volume = 1, entry = ORDER_TYPE_BUY,
                time_setup = Some 1700000000, time_update = Some 1700005400\<rparr>,
               \<lparr>profit = 100, volume = 1, entry = ORDER_TYPE_BUY,
                time_setup = Some 1700000000, time_update = None\<rparr>],
      has_time_setup = True, has_time_update = True\<rparr>"

text \<open>The scenario and a third record with a profit of 0.\<close>

definition scenario_with_zero :: trades_df where
  "scenario_with_zero =
     \<lparr>rows = [\<lparr>profit = 100, volume = 1, entry = ORDER_TYPE_BUY,
                time_setup = None, time_update = None\<rparr>,
               \<lparr>profit = - 50, volume = 2, entry = ORDER_TYPE_SELL,
                time_setup = None, time_update = None\<rparr>,
               \<lparr>profit = 0, volume = 1, entry = ORDER_TYPE_BUY,
                time_setup = None, time_update = None\<rparr>],
      has_time_setup = False, has_time_update = False\<rparr>"

text \<open>Two winning and nine losing trades, none with a profit of 0.\<close>

definition two_wins_nine_losses :: trades_df where
  "two_wins_nine_losses =
     \<lparr>rows = replicate 2 \<lparr>profit = 10, volume = 1, entry = ORDER_TYPE_BUY,
                            time_setup = None, time_update = None\<rparr>
             @ replicate 9 \<lparr>profit = - 10, volume = 1, entry = ORDER_TYPE_SELL,
                              time_setup = None, time_update = None\<rparr>,
      has_time_setup = False, has_time_update = False\<rparr>"

section \<open>Rounding\<close>

lemma round_half_even_error: "\<bar>of_int (round_half_even t) - t\<bar> \<le> 1 / 2"
proof -
  have "of_int \<lfloor>t\<rfloor> \<le> t" "t < of_int \<lfloor>t\<rfloor> + 1"
    by linarith+
  then show ?thesis
    by (auto simp: round_half_even_def Let_def)
qed

lemma round_half_even_nonneg: "0 \<le> t \<Longrightarrow> 0 \<le> round_half_even t"
  by (auto simp: round_half_even_def Let_def)

lemma round_half_even_le:
  assumes "t < of_int n + 1 / 2"
  shows "round_half_even t \<le> n"
proof -
  have "of_int (round_half_even t) \<le> t + 1 / 2"
    using round_half_even_error [of t] by linarith
  with assms have "(of_int (round_half_even t) :: rat) < of_int n + 1" by linarith
  then have "(of_int (round_half_even t) :: rat) < of_int (n + 1)" by simp
  then have "round_half_even t < n + 1" by (simp only: of_int_less_iff)
  then show ?thesis by simp
qed

text \<open>The exponent that \<open>ilog2\<close> finds is not too large.\<close>

lemma ilog2_le:
  assumes "0 < x"
  shows "2 powi (ilog2 x) \<le> x"
proof -
  obtain a b where q: "quotient_of x = (a, b)"
    by (cases "quotient_of x")
  have b: "0 < b" using q by (rule quotient_of_denom_pos)
  have x: "x = of_int a / of_int b" using q by (rule quotient_of_div)
  have a: "0 < a" using assms b x
    by (simp add: zero_less_divide_iff)
  have la: "(2::int) ^ nat (bitlen a - 1) \<le> a"
    using bitlen_bounds [OF a] by simp
  have lb: "b < 2 ^ nat (bitlen b)"
    using bitlen_bounds [OF b] by simp
  have la1: "1 \<le> bitlen a" using a by (simp add: bitlen_alt_def)
  have lb0: "0 \<le> bitlen b" by (rule bitlen_nonneg)
  have "(2::rat) powi (bitlen a - bitlen b - 1) = 2 powi (bitlen a - 1) / 2 powi (bitlen b)"
    using power_int_diff [of "2::rat" "bitlen a - 1" "bitlen b"] by (simp add: algebra_simps)
  also have "\<dots> = 2 ^ nat (bitlen a - 1) / 2 ^ nat (bitlen b)"
    using la1 lb0 by (simp add: power_int_def)
  also have "\<dots> \<le> of_int a / of_int b"
  proof (rule frac_le)
    show "(0::rat) \<le> of_int a" using a by simp
    show "(2::rat) ^ nat (bitlen a - 1) \<le> of_int a"
      using la by (metis of_int_le_iff of_int_numeral of_int_power)
    show "(0::rat) < of_int b" using b by simp
    show "(of_int b :: rat) \<le> 2 ^ nat (bitlen b)"
      using lb by (metis less_imp_le of_int_le_iff of_int_numeral of_int_power)
  qed
  finally have low: "(2::rat) powi (bitlen a - bitlen b - 1) \<le> x"
    using x by simp
  show ?thesis
    using low by (simp add: ilog2_def q Let_def)
qed

text \<open>Nor is it too small: \<open>ilog2 x\<close> is the binary exponent of \<open>x\<close>.\<close>

lemma ilog2_less:
  assumes "0 < x"
  shows "x < 2 powi (ilog2 x + 1)"
proof -
  obtain a b where q: "quotient_of x = (a, b)"
    by (cases "quotient_of x")
  have b: "0 < b" using q by (rule quotient_of_denom_pos)
  have x: "x = of_int a / of_int b" using q by (rule quotient_of_div)
  have a: "0 < a" using assms b x
    by (simp add: zero_less_divide_iff)
  have la: "a < 2 ^ nat (bitlen a)"
    using bitlen_bounds [OF a] by simp
  have lb: "(2::int) ^ nat (bitlen b - 1) \<le> b"
    using bitlen_bounds [OF b] by simp
  have la0: "0 \<le> bitlen a" by (rule bitlen_nonneg)
  have lb1: "1 \<le> bitlen b" using b by (simp add: bitlen_alt_def)
  have "of_int a / of_int b < (2::rat) ^ nat (bitlen a) / 2 ^ nat (bitlen b - 1)"
  proof (rule frac_less)
    show "(0::rat) \<le> of_int a" using a by simp
    show "(of_int a :: rat) < 2 ^ nat (bitlen a)"
      using la by (metis of_int_less_iff of_int_numeral of_int_power)
    show "(0::rat) < 2 ^ nat (bitlen b - 1)" by simp
    show "(2::rat) ^ nat (bitlen b - 1) \<le> of_int b"
      using lb by (metis of_int_le_iff of_int_numeral of_int_power)
  qed
  also have "\<dots> = 2 powi (bitlen a) / 2 powi (bitlen b - 1)"
    using la0 lb1 by (simp add: power_int_def)
  also have "\<dots> = 2 powi (bitlen a - bitlen b + 1)"
    using power_int_diff [of "2::rat" "bitlen a" "bitlen b - 1"] by (simp add: algebra_simps)
  finally have up: "x < 2 powi (bitlen a - bitlen b + 1)"
    using x by simp
  show ?thesis
    using up by (auto simp: ilog2_def q Let_def not_le)
qed

lemma fl_nonneg: "0 \<le> x \<Longrightarrow> 0 \<le> fl x"
  by (simp add: fl_def Let_def round_half_even_nonneg)

text \<open>Rounding to binary64 changes a number by at most half a unit in its last place.\<close>

lemma fl_error: "\<bar>fl x - x\<bar> \<le> \<bar>x\<bar> / 2 ^ 53"
proof (cases "x = 0")
  case True
  then show ?thesis by (simp add: fl_def)
next
  case False
  define e where "e = ilog2 \<bar>x\<bar> - 52"
  define p :: rat where "p = 2 powi e"
  have p: "0 < p" by (simp add: p_def)
  have fl: "fl x = of_int (round_half_even (x / p)) * p"
    using False by (simp add: fl_def Let_def e_def p_def)
  have "fl x - x = (of_int (round_half_even (x / p)) - x / p) * p"
    using p by (simp add: fl algebra_simps)
  then have "\<bar>fl x - x\<bar> = \<bar>of_int (round_half_even (x / p)) - x / p\<bar> * p"
    using p by (simp add: abs_mult)
  also have "\<dots> \<le> 1 / 2 * p"
    using round_half_even_error [of "x / p"] p by (intro mult_right_mono) auto
  also have "1 / 2 * p = 2 powi (ilog2 \<bar>x\<bar>) / 2 ^ 53"
    using power_int_diff [of "2::rat" "ilog2 \<bar>x\<bar>" 52] by (simp add: p_def e_def)
  also have "\<dots> \<le> \<bar>x\<bar> / 2 ^ 53"
    using ilog2_le [of "\<bar>x\<bar>"] False by (simp add: divide_right_mono)
  finally show ?thesis .
qed

text \<open>The error of a rate \<^verbatim>\<open>k / n * 100\<close>: a rounded quotient, times 100, rounded again.\<close>

lemma rate_error:
  assumes "0 \<le> q"
  shows "\<bar>fmul (fl q) 100 - 100 * q\<bar> \<le> 100 * q / 2 ^ 51"
proof -
  define f where "f = fl q"
  define r where "r = fl (f * 100)"
  have f0: "0 \<le> f" using assms by (simp add: f_def fl_nonneg)
  have e1: "\<bar>f - q\<bar> \<le> q / 2 ^ 53"
    using fl_error [of q] assms by (simp add: f_def)
  have e2: "\<bar>r - f * 100\<bar> \<le> f * 100 / 2 ^ 53"
    using fl_error [of "f * 100"] f0 by (simp add: r_def)
  have "f \<le> q + q / 2 ^ 53" using e1 by linarith
  also have "\<dots> \<le> 2 * q" using assms by simp
  finally have f2: "f \<le> 2 * q" .
  have "r - 100 * q = (r - f * 100) + 100 * (f - q)"
    by simp
  then have "\<bar>r - 100 * q\<bar> \<le> \<bar>r - f * 100\<bar> + \<bar>100 * (f - q)\<bar>"
    by (simp only: abs_triangle_ineq)
  also have "\<bar>100 * (f - q)\<bar> = 100 * \<bar>f - q\<bar>"
    by (simp only: abs_mult abs_numeral)
  also have "\<bar>r - f * 100\<bar> + 100 * \<bar>f - q\<bar> \<le> f * 100 / 2 ^ 53 + 100 * (q / 2 ^ 53)"
    using e1 e2 by (intro add_mono mult_left_mono) simp_all
  also have "\<dots> \<le> (2 * q) * 100 / 2 ^ 53 + 100 * (q / 2 ^ 53)"
    using f2 by (simp add: divide_right_mono)
  also have "\<dots> \<le> 100 * q / 2 ^ 51"
    using assms by simp
  finally show ?thesis by (simp add: fmul_def r_def f_def)
qed

lemma foldl_fadd_nonneg:
  "0 \<le> a \<Longrightarrow> \<forall>x\<in>set xs. 0 \<le> x \<Longrightarrow> 0 \<le> foldl fadd a xs"
  by (induction xs arbitrary: a) (simp_all add: fadd_def fl_nonneg)

lemma series_sum_nonneg: "\<forall>x\<in>set xs. 0 \<le> x \<Longrightarrow> 0 \<le> series_sum xs"
  by (simp add: series_sum_def foldl_fadd_nonneg)

section \<open>The string of a duration\<close>

lemma no_dot_str_nat: "CHR ''.'' \<notin> set (str_nat n)"
proof (induction n rule: str_nat.induct)
  case (1 n)
  have digit: "CHR ''.'' \<noteq> ''0123456789'' ! k" if "k < 10" for k
  proof -
    from that have "k \<in> {0, 1, 2, 3, 4, 5, 6, 7, 8, 9}" by auto
    then show ?thesis by auto
  qed
  show ?case
  proof (cases "n < 10")
    case True
    then show ?thesis by (subst str_nat.simps) (simp add: digit)
  next
    case False
    with 1 have "CHR ''.'' \<notin> set (str_nat (n div 10))" by simp
    moreover have "CHR ''.'' \<noteq> ''0123456789'' ! (n mod 10)" by (rule digit) simp
    ultimately show ?thesis using False by (subst str_nat.simps) simp
  qed
qed

lemma no_dot_str_int: "CHR ''.'' \<notin> set (str_int i)"
  by (simp add: str_int_def no_dot_str_nat)

lemma no_dot_zero_pad: "CHR ''.'' \<notin> set (zero_pad w i)"
  by (simp add: zero_pad_def Let_def no_dot_str_int)

lemma split_dot_first_no_dot: "CHR ''.'' \<notin> set s \<Longrightarrow> split_dot_first s = s"
  by (auto simp: split_dot_first_def)

lemma split_dot_first_append: "CHR ''.'' \<notin> set s \<Longrightarrow> split_dot_first (s @ CHR ''.'' # r) = s"
  by (auto simp: split_dot_first_def takeWhile_tail)

lemma whole_seconds_nonneg:
  assumes "0 \<le> x"
  shows "0 \<le> whole_seconds x"
proof -
  have "0 \<le> x - of_int \<lfloor>x\<rfloor>" by linarith
  then have "0 \<le> round_half_even (fmul (x - of_int \<lfloor>x\<rfloor>) 1000000)"
    by (simp add: fmul_def fl_nonneg round_half_even_nonneg)
  then have "0 \<le> round_half_even (fmul (x - of_int \<lfloor>x\<rfloor>) 1000000) div 1000000"
    by (simp add: pos_imp_zdiv_nonneg_iff)
  moreover have "0 \<le> \<lfloor>x\<rfloor>" using assms by simp
  ultimately show ?thesis by (simp add: whole_seconds_def)
qed

text \<open>Rounding to microseconds carries at most one second.\<close>

lemma whole_seconds_bounds:
  assumes "0 \<le> x"
  shows "\<lfloor>x\<rfloor> \<le> whole_seconds x \<and> whole_seconds x \<le> \<lfloor>x\<rfloor> + 1"
proof -
  define y where "y = (x - of_int \<lfloor>x\<rfloor>) * 1000000"
  have "0 \<le> x - of_int \<lfloor>x\<rfloor>" and "x - of_int \<lfloor>x\<rfloor> < 1"
    by linarith+
  then have y0: "0 \<le> y" and y1: "y < 1000000"
    by (simp_all add: y_def)
  have "fl y \<le> y + \<bar>y\<bar> / 2 ^ 53"
    using fl_error [of y] by linarith
  also have "\<dots> < 1000000 + 1 / 2"
    using y0 y1 by simp
  finally have le: "round_half_even (fl y) \<le> 1000000"
    using round_half_even_le [of "fl y" 1000000] by simp
  have "0 \<le> round_half_even (fl y)"
    using y0 by (simp add: fl_nonneg round_half_even_nonneg)
  then have lo: "0 \<le> round_half_even (fl y) div 1000000"
    by (simp add: pos_imp_zdiv_nonneg_iff)
  have "round_half_even (fl y) div 1000000 \<le> 1000000 div 1000000"
    using le by (rule zdiv_mono1) simp
  then have hi: "round_half_even (fl y) div 1000000 \<le> 1"
    by simp
  show ?thesis
    using lo hi by (simp add: whole_seconds_def fmul_def y_def)
qed

text \<open>The whole seconds of a whole number of seconds are that number.\<close>

lemma whole_seconds_of_int: "whole_seconds (of_int n) = n"
  by (simp add: whole_seconds_def fmul_def fl_def round_half_even_def)

lemma timedelta_of_seconds_fields:
  assumes "0 \<le> x" and "timedelta_of_seconds x = Inr td"
  shows "days td = whole_seconds x div 86400" and "seconds td = whole_seconds x mod 86400"
  using assms
  by (auto simp: timedelta_of_seconds_def whole_seconds_def Let_def split: if_splits)

lemma timedelta_of_seconds_raises:
  assumes "0 \<le> x"
  shows "timedelta_of_seconds x = Inl e
    \<longleftrightarrow> e = OverflowError \<and> 999999999 < whole_seconds x div 86400"
proof -
  have "0 \<le> whole_seconds x div 86400"
    using whole_seconds_nonneg [OF assms] by (simp add: pos_imp_zdiv_nonneg_iff)
  then show ?thesis
    using assms by (auto simp: timedelta_of_seconds_def whole_seconds_def Let_def)
qed

text \<open>
  \<^verbatim>\<open>str(td).split('.')[0]\<close> is the string of \<open>td\<close> without its microseconds: no digit,
  colon or letter of the rest is a dot.
\<close>

lemma timedelta_str_split:
  assumes "0 \<le> days td"
  shows "split_dot_first (timedelta_str td) =
    (if days td \<noteq> 0
     then str_int (days td) @ '' day'' @ (if days td \<noteq> 1 then ''s'' else []) @ '', ''
     else []) @ hmmss (seconds td)"
proof -
  define base where "base = (if days td \<noteq> 0
     then str_int (days td) @ '' day'' @ (if days td \<noteq> 1 then ''s'' else []) @ '', ''
     else []) @ hmmss (seconds td)"
  have nd: "CHR ''.'' \<notin> set base"
    by (simp add: base_def hmmss_def no_dot_str_int no_dot_zero_pad)
  have hh: "seconds td div 60 div 60 = seconds td div 3600"
    by (simp add: zdiv_zmult2_eq [symmetric])
  have str: "timedelta_str td =
      (if microseconds td \<noteq> 0 then base @ CHR ''.'' # zero_pad 6 (microseconds td) else base)"
    using assms by (simp add: timedelta_str_def Let_def base_def hmmss_def hh)
  show ?thesis
    unfolding base_def [symmetric] str
    using nd by (simp add: split_dot_first_no_dot split_dot_first_append)
qed

lemma duration_of_seconds:
  assumes "0 \<le> x" and "timedelta_of_seconds x = Inr td"
  shows "split_dot_first (timedelta_str td) = duration_str (whole_seconds x)"
proof -
  let ?s = "whole_seconds x"
  have s: "0 \<le> ?s" using assms(1) by (rule whole_seconds_nonneg)
  have d: "days td = ?s div 86400" and r: "seconds td = ?s mod 86400"
    using timedelta_of_seconds_fields [OF assms] by simp_all
  have d0: "0 \<le> days td" using s by (simp add: d pos_imp_zdiv_nonneg_iff)
  show ?thesis
  proof (cases "?s < 86400")
    case True
    with s have "?s div 86400 = 0" "?s mod 86400 = ?s" by simp_all
    with True show ?thesis
      by (simp add: timedelta_str_split [OF d0] d r duration_str_def)
  next
    case False
    then have "?s div 86400 \<noteq> 0"
      by (simp add: div_eq_0_iff)
    with False show ?thesis
      by (simp add: timedelta_str_split [OF d0] d r duration_str_def)
  qed
qed

section \<open>Counting the rows\<close>

lemma length_filter_win_loss:
  "length (filter (\<lambda>t. 0 < deal.profit t) xs) + length (filter (\<lambda>t. deal.profit t < 0) xs)
     + length (filter (\<lambda>t. deal.profit t = 0) xs) = length xs"
  by (induction xs) auto

section \<open>Sums with missing timestamps\<close>

lemma nan_add_None [simp]: "nan_add None x = None"
  by (cases x) simp_all

lemma foldl_nan_add_None [simp]: "foldl nan_add None xs = None"
  by (induction xs) simp_all

text \<open>One missing timestamp makes the sum of the durations NaN.\<close>

lemma foldl_nan_add_missing:
  assumes "None \<in> set xs"
  shows "foldl nan_add a xs = None"
  using assms
proof (induction xs arbitrary: a)
  case Nil
  then show ?case by simp
next
  case (Cons x xs)
  show ?case
  proof (cases x)
    case None
    then show ?thesis by (cases a) simp_all
  next
    case (Some v)
    with Cons.prems have "None \<in> set xs" by auto
    then show ?thesis by (simp add: Cons.IH)
  qed
qed

lemma py_sum_missing: "None \<in> set xs \<Longrightarrow> py_sum xs = None"
  by (simp add: py_sum_def foldl_nan_add_missing)

lemma nan_sub_eq_None: "nan_sub u s = None \<longleftrightarrow> u = None \<or> s = None"
  by (cases u; cases s) simp_all

text \<open>Without a missing timestamp the sum is the exact sum of the differences.\<close>

lemma foldl_nan_add_present:
  assumes "\<forall>t\<in>set xs. time_update t \<noteq> None \<and> time_setup t \<noteq> None"
  shows "foldl nan_add (Some a) (map (\<lambda>t. nan_sub (time_update t) (time_setup t)) xs)
      = Some (a + sum_list (concat (map (\<lambda>t. spec_duration (time_update t) (time_setup t)) xs)))
    \<and> length (concat (map (\<lambda>t. spec_duration (time_update t) (time_setup t)) xs)) = length xs"
  using assms
proof (induction xs arbitrary: a)
  case Nil
  then show ?case by simp
next
  case (Cons x xs)
  from Cons.prems obtain u s where x: "time_update x = Some u" "time_setup x = Some s"
    by auto
  from Cons.prems have "\<forall>t\<in>set xs. time_update t \<noteq> None \<and> time_setup t \<noteq> None"
    by simp
  from Cons.IH [OF this, of "a + (u - s)"] show ?case
    by (simp add: x algebra_simps)
qed

lemma mean_duration_present:
  assumes "\<forall>t\<in>set (rows df). time_update t \<noteq> None \<and> time_setup t \<noteq> None"
    and "has_time_update df" and "has_time_setup df"
  shows "mean_duration df
      = Some (fdiv (of_int (sum_list (spec_durations df))) (of_nat (length (spec_durations df))))"
    and "length (spec_durations df) = length (rows df)"
  using foldl_nan_add_present [OF assms(1), of 0] assms(2,3)
  by (simp_all add: mean_duration_def py_sum_def spec_durations_def)

lemma mean_duration_missing:
  assumes "\<exists>t\<in>set (rows df). time_update t = None \<or> time_setup t = None"
  shows "mean_duration df = None"
proof -
  from assms obtain t where t: "t \<in> set (rows df)"
    and "time_update t = None \<or> time_setup t = None"
    by blast
  then have eq: "nan_sub (time_update t) (time_setup t) = None"
    by (simp add: nan_sub_eq_None)
  have "nan_sub (time_update t) (time_setup t)
      \<in> (\<lambda>t. nan_sub (time_update t) (time_setup t)) ` set (rows df)"
    using t by (rule imageI)
  then have "None \<in> set (map (\<lambda>t. nan_sub (time_update t) (time_setup t)) (rows df))"
    by (simp add: eq)
  then show ?thesis
    by (simp add: mean_duration_def py_sum_missing)
qed

section \<open>Values at the concrete inputs\<close>

lemma scenario_value:
  "calculate_metrics scenario_records scenario_account = Inr scenario_result"
  by code_simp

lemma single_trade_5400:
  "calculate_metrics (single_trade 5400) scenario_account = Inr (single_trade_result ''1:30:00'')"
  by code_simp

lemma scenario_account_roi:
  "fmul (fdiv (account_info.profit scenario_account) (balance scenario_account)) 100 = 5"
  by code_simp

lemma scenario_account_ratio:
  "fmul (fdiv (equity scenario_account) (balance scenario_account)) 100 = 105"
  by code_simp

section \<open>When the engine returns\<close>

text \<open>
  \<open>calculate_metrics\<close> raises only \<^verbatim>\<open>OverflowError\<close>, and only when the mean duration of a
  frame with both timestamp columns is longer than \<^verbatim>\<open>timedelta\<close> can hold; otherwise it
  returns its two lists.
\<close>

lemma calculate_metrics_raises:
  "calculate_metrics trades_df account_info = Inl e \<longleftrightarrow>
     e = OverflowError \<and> duration_overflows trades_df"
proof (cases "rows trades_df = []")
  case True
  then show ?thesis by (simp add: calculate_metrics_def duration_overflows_def)
next
  case rows: False
  show ?thesis
  proof (cases "has_time_update trades_df \<and> has_time_setup trades_df")
    case True
    show ?thesis
    proof (cases "mean_duration trades_df")
      case None
      then have "calculate_metrics trades_df account_info \<noteq> Inl e"
        using rows True
        by (simp add: calculate_metrics_def Let_def mean_duration_def
            split: sum.splits split del: if_split cong: if_cong)
      then show ?thesis
        using None by (simp add: duration_overflows_def)
    next
      case (Some a)
      show ?thesis
      proof (cases "0 < a")
        case pos: True
        then have nonneg: "0 \<le> a" by simp
        have "calculate_metrics trades_df account_info = Inl e
            \<longleftrightarrow> timedelta_of_seconds a = Inl e"
          using rows True pos Some
          by (simp add: calculate_metrics_def Let_def mean_duration_def
              split: sum.splits split del: if_split cong: if_cong)
        then show ?thesis
          using timedelta_of_seconds_raises [OF nonneg, of e] rows True pos Some
          by (simp add: duration_overflows_def)
      next
        case False
        then have "calculate_metrics trades_df account_info \<noteq> Inl e"
          using rows True Some
          by (simp add: calculate_metrics_def Let_def mean_duration_def
              split: sum.splits split del: if_split cong: if_cong)
        then show ?thesis
          using False Some by (simp add: duration_overflows_def)
      qed
    qed
  next
    case False
    then consider "\<not> has_time_update trades_df" | "\<not> has_time_setup trades_df"
      by blast
    then show ?thesis
    proof cases
      case 1
      with rows show ?thesis
        by (simp add: calculate_metrics_def Let_def duration_overflows_def
            split del: if_split cong: if_cong)
    next
      case 2
      with rows show ?thesis
        by (simp add: calculate_metrics_def Let_def duration_overflows_def
            split del: if_split cong: if_cong)
    qed
  qed
qed

lemma calculate_metrics_returns:
  assumes "\<not> duration_overflows trades_df"
  shows "\<exists>m. calculate_metrics trades_df account_info = Inr m"
proof (cases "calculate_metrics trades_df account_info")
  case (Inl e)
  with assms show ?thesis by (simp add: calculate_metrics_raises)
next
  case (Inr m)
  then show ?thesis by blast
qed

text \<open>A frame that lacks a timestamp column, as every frame of the handler does, never raises.\<close>

lemma no_columns_no_overflow:
  "\<not> (has_time_update trades_df \<and> has_time_setup trades_df) \<Longrightarrow> \<not> duration_overflows trades_df"
  by (auto simp: duration_overflows_def)

section \<open>The string of the average trade duration\<close>

text \<open>
  What the engine returns as Average Trade Duration, for every frame with a row: \<^verbatim>\<open>0h\<close>
  when a timestamp column is absent, when a timestamp is missing (the mean is NaN) and
  when the mean is not positive; otherwise the string of the \<^verbatim>\<open>timedelta\<close> without its
  microseconds.
\<close>

lemma average_trade_duration_value:
  assumes "rows trades_df \<noteq> []" and "calculate_metrics trades_df account_info = Inr m"
  shows "metric_named ''Average Trade Duration'' (default_metrics m) =
    Some (Str (if has_time_update trades_df \<and> has_time_setup trades_df
               then (case mean_duration trades_df of
                       None \<Rightarrow> ''0h''
                     | Some a \<Rightarrow> if 0 < a then duration_str (whole_seconds a) else ''0h'')
               else ''0h''))"
proof (cases "has_time_update trades_df \<and> has_time_setup trades_df")
  case True
  show ?thesis
  proof (cases "mean_duration trades_df")
    case None
    with True assms show ?thesis
      by (clarsimp simp: calculate_metrics_def Let_def metric_named_def mean_duration_def
          split: sum.splits split del: if_split cong: if_cong)
  next
    case (Some a)
    show ?thesis
    proof (cases "0 < a")
      case pos: True
      then have nonneg: "0 \<le> a" by simp
      from True Some pos assms obtain td where td: "timedelta_of_seconds a = Inr td"
        and m: "metric_named ''Average Trade Duration'' (default_metrics m)
                = Some (Str (split_dot_first (timedelta_str td)))"
        by (clarsimp simp: calculate_metrics_def Let_def metric_named_def mean_duration_def
            split: sum.splits split del: if_split cong: if_cong)
      show ?thesis
        using True Some pos by (simp add: m duration_of_seconds [OF nonneg td])
    next
      case False
      with True Some assms show ?thesis
        by (clarsimp simp: calculate_metrics_def Let_def metric_named_def mean_duration_def
            split: sum.splits split del: if_split cong: if_cong)
    qed
  qed
next
  case False
  then consider "\<not> has_time_update trades_df" | "\<not> has_time_setup trades_df"
    by blast
  then show ?thesis
  proof cases
    case 1
    with assms show ?thesis
      by (clarsimp simp: calculate_metrics_def Let_def metric_named_def
          split: sum.splits split del: if_split cong: if_cong)
  next
    case 2
    with assms show ?thesis
      by (clarsimp simp: calculate_metrics_def Let_def metric_named_def
          split: sum.splits split del: if_split cong: if_cong)
  qed
qed

text \<open>
  Where every record has both timestamps and the mean is shorter than one day, the engine
  returns the string of the specification.
\<close>

lemma average_trade_duration_agrees:
  assumes "rows trades_df \<noteq> []" and "calculate_metrics trades_df account_info = Inr m"
    and "has_time_update trades_df" and "has_time_setup trades_df"
    and "\<forall>t\<in>set (rows trades_df). time_update t \<noteq> None \<and> time_setup t \<noteq> None"
    and "mean_duration trades_df = Some a" and "whole_seconds a < 86400"
  shows "metric_named ''Average Trade Duration'' (default_metrics m)
    = Some (Str (spec_average_trade_duration trades_df))"
proof -
  have mean: "fdiv (of_int (sum_list (spec_durations trades_df)))
      (of_nat (length (spec_durations trades_df))) = a"
    using mean_duration_present(1) [OF assms(5,3,4)] assms(6) by simp
  have "length (spec_durations trades_df) = length (rows trades_df)"
    using assms(5,3,4) by (rule mean_duration_present(2))
  with assms(1) have ne: "spec_durations trades_df \<noteq> []"
    by auto
  have spec: "spec_average_trade_duration trades_df
      = (if a \<le> 0 then ''0h'' else hmmss (whole_seconds a))"
    using ne by (simp add: spec_average_trade_duration_def Let_def mean)
  show ?thesis
    using average_trade_duration_value [OF assms(1,2)] assms(3,4,6,7)
    by (auto simp: spec duration_str_def)
qed

text \<open>
  In a frame with both timestamp columns, one record without a timestamp makes the
  engine return \<^verbatim>\<open>0h\<close>, whatever the other records are.
\<close>

lemma average_trade_duration_missing:
  assumes "rows trades_df \<noteq> []" and "calculate_metrics trades_df account_info = Inr m"
    and "\<exists>t\<in>set (rows trades_df). time_update t = None \<or> time_setup t = None"
  shows "metric_named ''Average Trade Duration'' (default_metrics m) = Some (Str ''0h'')"
  using average_trade_duration_value [OF assms(1,2)] mean_duration_missing [OF assms(3)]
  by simp

section \<open>The claims\<close>

subsection \<open>The empty record set\<close>

text \<open>
  Claim C1. For every account snapshot, \<open>calculate_metrics\<close> on a frame without rows
  returns a default list of exactly 14 metrics, each with the value 0 but
  \<^verbatim>\<open>Average Trade Duration\<close>, whose value is the string \<^verbatim>\<open>0h\<close>, and a custom list of the one
  metric \<^verbatim>\<open>Custom ROI\<close>, whose value is \<^verbatim>\<open>profit / balance * 100\<close> (in float arithmetic) when
  the balance is positive and 0 otherwise.
\<close>

theorem empty_records_metrics:
  assumes "rows trades_df = []"
  shows "\<exists>m. calculate_metrics trades_df account_info = Inr m
    \<and> length (default_metrics m) = 14
    \<and> (\<forall>x\<in>set (default_metrics m).
          metric_value x = (if name x = ''Average Trade Duration'' then Str ''0h'' else Num 0))
    \<and> metric_named ''Average Trade Duration'' (default_metrics m) = Some (Str ''0h'')
    \<and> map name (custom_metrics m) = [''Custom ROI'']
    \<and> metric_named ''Custom ROI'' (custom_metrics m) =
          Some (Num (if 0 < balance account_info
             then fmul (fdiv (account_info.profit account_info) (balance account_info)) 100
             else 0))"
  using assms by (simp add: calculate_metrics_def metric_named_def)

theorem empty_records_metrics_witness:
  "rows no_records = []
   \<and> (\<exists>m. calculate_metrics no_records scenario_account = Inr m
        \<and> length (default_metrics m) = 14
        \<and> metric_named ''Average Trade Duration'' (default_metrics m) = Some (Str ''0h'')
        \<and> map name (custom_metrics m) = [''Custom ROI'']
        \<and> metric_named ''Custom ROI'' (custom_metrics m) = Some (Num 5))"
proof -
  have h: "rows no_records = []"
    by (simp add: no_records_def)
  have b: "0 < balance scenario_account"
    by (simp add: scenario_account_def)
  from empty_records_metrics [OF h, of scenario_account] show ?thesis
    using h b by (auto simp: scenario_account_roi)
qed

subsection \<open>The custom metrics of a non-empty record set\<close>

text \<open>
  Claim C2. For every frame with a row and every account snapshot, \<open>calculate_metrics\<close>
  returns, and the custom list that it returns has exactly the three entries
  \<^verbatim>\<open>Custom ROI\<close>, \<^verbatim>\<open>Equity to Balance Ratio\<close> and \<^verbatim>\<open>Margin Level\<close>, in this order:
  \<^verbatim>\<open>profit / balance * 100\<close> and \<^verbatim>\<open>equity / balance * 100\<close> (0 unless the balance is positive),
  and the margin level (0 unless it is positive). The frames left out are those whose
  mean duration is longer than a \<^verbatim>\<open>timedelta\<close> holds, on which the engine raises.
\<close>

theorem nonempty_custom_metrics:
  assumes "rows trades_df \<noteq> []" and "\<not> duration_overflows trades_df"
  shows "\<exists>m. calculate_metrics trades_df account_info = Inr m
    \<and> custom_metrics m =
    [\<lparr>name = ''Custom ROI'',
      metric_value = Num (if 0 < balance account_info
        then fmul (fdiv (account_info.profit account_info) (balance account_info)) 100 else 0),
      isCustom = True\<rparr>,
     \<lparr>name = ''Equity to Balance Ratio'',
      metric_value = Num (if 0 < balance account_info
        then fmul (fdiv (equity account_info) (balance account_info)) 100 else 0),
      isCustom = True\<rparr>,
     \<lparr>name = ''Margin Level'',
      metric_value = Num (if 0 < margin_level account_info then margin_level account_info else 0),
      isCustom = True\<rparr>]"
proof -
  from assms(2) obtain m where m: "calculate_metrics trades_df account_info = Inr m"
    using calculate_metrics_returns by blast
  with assms(1) have "custom_metrics m =
    [\<lparr>name = ''Custom ROI'',
      metric_value = Num (if 0 < balance account_info
        then fmul (fdiv (account_info.profit account_info) (balance account_info)) 100 else 0),
      isCustom = True\<rparr>,
     \<lparr>name = ''Equity to Balance Ratio'',
      metric_value = Num (if 0 < balance account_info
        then fmul (fdiv (equity account_info) (balance account_info)) 100 else 0),
      isCustom = True\<rparr>,
     \<lparr>name = ''Margin Level'',
      metric_value = Num (if 0 < margin_level account_info then margin_level account_info else 0),
      isCustom = True\<rparr>]"
    by (clarsimp simp: calculate_metrics_def Let_def
        split: sum.splits split del: if_split cong: if_cong)
  with m show ?thesis by blast
qed

theorem nonempty_custom_metrics_witness:
  "rows scenario_records \<noteq> []
   \<and> \<not> duration_overflows scenario_records
   \<and> (\<exists>m. calculate_metrics scenario_records scenario_account = Inr m
        \<and> custom_metrics m =
          [\<lparr>name = ''Custom ROI'', metric_value = Num 5, isCustom = True\<rparr>,
           \<lparr>name = ''Equity to Balance Ratio'', metric_value = Num 105, isCustom = True\<rparr>,
           \<lparr>name = ''Margin Level'', metric_value = Num 200, isCustom = True\<rparr>])"
proof -
  have h: "rows scenario_records \<noteq> []"
    by (simp add: scenario_records_def)
  have o: "\<not> duration_overflows scenario_records"
    by (simp add: duration_overflows_def scenario_records_def)
  have b: "0 < balance scenario_account" "margin_level scenario_account = 200"
    by (simp_all add: scenario_account_def)
  from nonempty_custom_metrics [OF h o, of scenario_account] show ?thesis
    using h o b by (simp add: scenario_account_roi scenario_account_ratio)
qed

subsection \<open>The scenario of two trades\<close>

text \<open>
  Claim C3. For the records \<^verbatim>\<open>[{profit: 100, volume: 1, entry: BUY},
  {profit: -50, volume: 2, entry: SELL}]\<close> and the account \<^verbatim>\<open>{balance: 1000, equity: 1050,
  profit: 50, margin_level: 200}\<close> the engine returns Lots 3, Win Rate 50, Loss Rate 50,
  Gross Profit 100, Gross Loss 50, Profit Factor 2, Best Trade 100, Worst Trade -50,
  Long Won 100, Short Won 0, Custom ROI 5, Equity to Balance Ratio 105 and
  Margin Level 200.
\<close>

theorem scenario_metrics:
  "returned_metric ''Lots'' (calculate_metrics scenario_records scenario_account)
     = Some (Num 3)
 \<and> returned_metric ''Win Rate'' (calculate_metrics scenario_records scenario_account)
     = Some (Num 50)
 \<and> returned_metric ''Loss Rate'' (calculate_metrics scenario_records scenario_account)
     = Some (Num 50)
 \<and> returned_metric ''Gross Profit'' (calculate_metrics scenario_records scenario_account)
     = Some (Num 100)
 \<and> returned_metric ''Gross Loss'' (calculate_metrics scenario_records scenario_account)
     = Some (Num 50)
 \<and> returned_metric ''Profit Factor'' (calculate_metrics scenario_records scenario_account)
     = Some (Num 2)
 \<and> returned_metric ''Best Trade'' (calculate_metrics scenario_records scenario_account)
     = Some (Num 100)
 \<and> returned_metric ''Worst Trade'' (calculate_metrics scenario_records scenario_account)
     = Some (Num (- 50))
 \<and> returned_metric ''Long Won'' (calculate_metrics scenario_records scenario_account)
     = Some (Num 100)
 \<and> returned_metric ''Short Won'' (calculate_metrics scenario_records scenario_account)
     = Some (Num 0)
 \<and> returned_metric ''Custom ROI'' (calculate_metrics scenario_records scenario_account)
     = Some (Num 5)
 \<and> returned_metric ''Equity to Balance Ratio''
       (calculate_metrics scenario_records scenario_account)
     = Some (Num 105)
 \<and> returned_metric ''Margin Level'' (calculate_metrics scenario_records scenario_account)
     = Some (Num 200)"
  by (simp add: scenario_value returned_metric_def scenario_result_def metric_named_def)

subsection \<open>Win rate and loss rate\<close>

text \<open>
  Claim C4 says that the two rates sum to at most 100, and to 100 exactly when no record
  has a profit of 0. The rates are floats, each the rounded result of
  \<^verbatim>\<open>count / total * 100\<close>: for two winning and nine losing trades the engine returns
  18.181818181818183 and 81.81818181818183, whose sum is greater than 100 although no
  record has a profit of 0.
\<close>

theorem win_loss_sum_counterexample:
  "returned_metric ''Win Rate'' (calculate_metrics two_wins_nine_losses scenario_account)
     = Some (Num (5117726849284655 / 281474976710656))
 \<and> returned_metric ''Loss Rate'' (calculate_metrics two_wins_nine_losses scenario_account)
     = Some (Num (5757442705445237 / 70368744177664))
 \<and> \<not> (5117726849284655 / 281474976710656 + 5757442705445237 / 70368744177664 \<le> (100 :: rat))
 \<and> 0 \<notin> set (map deal.profit (rows two_wins_nine_losses))"
  by code_simp

text \<open>
  Claim C4, as amended. For every frame with a row, the Win Rate and the Loss Rate are
  the floats \<^verbatim>\<open>count(profitable) / count(all) * 100\<close> and
  \<^verbatim>\<open>count(losing) / count(all) * 100\<close>. Every record is profitable, losing or of profit 0,
  so a record of profit 0 is in neither subset and counts in the denominator of both
  rates, and the two counts add up to the number of records exactly when no record has a
  profit of 0. The rates sum to at most \<open>100 + 100 / 2 ^ 51\<close>. When no record has a profit
  of 0 their sum is 100 up to \<open>100 / 2 ^ 51\<close>; when a record has a profit of 0 their sum is
  less than 100, in every frame of at most \<open>2 ^ 51\<close> records. So the sum is 100 only when
  no record has a profit of 0. The frames left out are those on which the engine raises.
\<close>

theorem win_loss_rates:
  assumes "rows trades_df \<noteq> []" and "\<not> duration_overflows trades_df"
  shows "\<exists>m win_rate loss_rate.
      calculate_metrics trades_df account_info = Inr m
    \<and> metric_named ''Win Rate'' (default_metrics m) = Some (Num win_rate)
    \<and> metric_named ''Loss Rate'' (default_metrics m) = Some (Num loss_rate)
    \<and> win_rate = fmul (fdiv (of_nat (length (filter (\<lambda>t. 0 < deal.profit t) (rows trades_df))))
                           (of_nat (length (rows trades_df)))) 100
    \<and> loss_rate = fmul (fdiv (of_nat (length (filter (\<lambda>t. deal.profit t < 0) (rows trades_df))))
                            (of_nat (length (rows trades_df)))) 100
    \<and> length (filter (\<lambda>t. 0 < deal.profit t) (rows trades_df))
        + length (filter (\<lambda>t. deal.profit t < 0) (rows trades_df))
        + length (filter (\<lambda>t. deal.profit t = 0) (rows trades_df)) = length (rows trades_df)
    \<and> (length (filter (\<lambda>t. 0 < deal.profit t) (rows trades_df))
        + length (filter (\<lambda>t. deal.profit t < 0) (rows trades_df)) = length (rows trades_df)
        \<longleftrightarrow> (\<forall>t\<in>set (rows trades_df). deal.profit t \<noteq> 0))
    \<and> win_rate + loss_rate \<le> 100 + 100 / 2 ^ 51
    \<and> ((\<forall>t\<in>set (rows trades_df). deal.profit t \<noteq> 0)
          \<longrightarrow> \<bar>win_rate + loss_rate - 100\<bar> \<le> 100 / 2 ^ 51)
    \<and> ((\<exists>t\<in>set (rows trades_df). deal.profit t = 0) \<and> length (rows trades_df) \<le> 2 ^ 51
          \<longrightarrow> win_rate + loss_rate < 100)"
proof -
  let ?W = "length (filter (\<lambda>t. 0 < deal.profit t) (rows trades_df))"
  let ?L = "length (filter (\<lambda>t. deal.profit t < 0) (rows trades_df))"
  let ?Z = "length (filter (\<lambda>t. deal.profit t = 0) (rows trades_df))"
  let ?N = "length (rows trades_df)"
  define qw :: rat where "qw = of_nat ?W / of_nat ?N"
  define ql :: rat where "ql = of_nat ?L / of_nat ?N"
  define w where "w = fmul (fdiv (of_nat ?W) (of_nat ?N)) 100"
  define l where "l = fmul (fdiv (of_nat ?L) (of_nat ?N)) 100"
  from assms(2) obtain m where m: "calculate_metrics trades_df account_info = Inr m"
    using calculate_metrics_returns by blast
  have N: "0 < ?N" using assms(1) by simp
  have count: "?W + ?L + ?Z = ?N" by (rule length_filter_win_loss)
  have zero: "?Z = 0 \<longleftrightarrow> (\<forall>t\<in>set (rows trades_df). deal.profit t \<noteq> 0)"
    by (simp add: filter_empty_conv)
  have all: "?W + ?L = ?N \<longleftrightarrow> (\<forall>t\<in>set (rows trades_df). deal.profit t \<noteq> 0)"
    using count zero by linarith
  have qw0: "0 \<le> qw" and ql0: "0 \<le> ql" by (simp_all add: qw_def ql_def)
  have sum_q: "qw + ql = of_nat (?W + ?L) / of_nat ?N"
    by (simp add: qw_def ql_def add_divide_distrib)
  also have "\<dots> \<le> 1" using N count by (simp add: le_divide_eq_1)
  finally have q1: "qw + ql \<le> 1" .
  have q0: "0 \<le> qw + ql" using qw0 ql0 by simp
  have ew: "\<bar>w - 100 * qw\<bar> \<le> 100 * qw / 2 ^ 51"
    using rate_error [OF qw0] by (simp add: w_def fdiv_def qw_def)
  have el: "\<bar>l - 100 * ql\<bar> \<le> 100 * ql / 2 ^ 51"
    using rate_error [OF ql0] by (simp add: l_def fdiv_def ql_def)
  have err: "\<bar>w + l - 100 * (qw + ql)\<bar> \<le> 100 * (qw + ql) / 2 ^ 51"
  proof -
    have "w + l - 100 * (qw + ql) = (w - 100 * qw) + (l - 100 * ql)"
      by (simp add: algebra_simps)
    then have "\<bar>w + l - 100 * (qw + ql)\<bar> \<le> \<bar>w - 100 * qw\<bar> + \<bar>l - 100 * ql\<bar>"
      by (simp only: abs_triangle_ineq)
    also have "\<dots> \<le> 100 * qw / 2 ^ 51 + 100 * ql / 2 ^ 51"
      using ew el by (rule add_mono)
    also have "\<dots> = 100 * (qw + ql) / 2 ^ 51"
      by (simp add: algebra_simps add_divide_distrib)
    finally show ?thesis .
  qed
  have bound: "w + l \<le> (qw + ql) * (100 + 100 / 2 ^ 51)"
  proof -
    have "w + l \<le> 100 * (qw + ql) + 100 * (qw + ql) / 2 ^ 51" using err by linarith
    also have "\<dots> = (qw + ql) * (100 + 100 / 2 ^ 51)" by (simp add: algebra_simps)
    finally show ?thesis .
  qed
  have up: "w + l \<le> 100 + 100 / 2 ^ 51"
  proof -
    have "(qw + ql) * (100 + 100 / 2 ^ 51) \<le> 1 * (100 + 100 / 2 ^ 51)"
      using q1 by (rule mult_right_mono) simp
    with bound show ?thesis by simp
  qed
  have eq: "\<bar>w + l - 100\<bar> \<le> 100 / 2 ^ 51" if "\<forall>t\<in>set (rows trades_df). deal.profit t \<noteq> 0"
  proof -
    from that all have "?W + ?L = ?N" by simp
    then have "qw + ql = 1"
      using N by (simp add: qw_def ql_def add_divide_distrib [symmetric] del: of_nat_add)
    with err show ?thesis by simp
  qed
  have less: "w + l < 100"
    if z: "\<exists>t\<in>set (rows trades_df). deal.profit t = 0" and n: "?N \<le> 2 ^ 51"
  proof -
    from z zero have "?Z \<noteq> 0" by blast
    with count have wl: "?W + ?L + 1 \<le> ?N" by linarith
    have Nr: "(0::rat) < of_nat ?N" using N by simp
    have "(of_nat (?W + ?L) :: rat) + 1 \<le> of_nat ?N"
      using wl by (metis of_nat_1 of_nat_add of_nat_le_iff)
    then have "(of_nat (?W + ?L) :: rat) \<le> of_nat ?N - 1" by linarith
    then have "qw + ql \<le> (of_nat ?N - 1) / of_nat ?N"
      unfolding sum_q using Nr by (simp add: divide_right_mono)
    also have "\<dots> = 1 - 1 / of_nat ?N"
      using Nr by (simp add: diff_divide_distrib)
    also have "\<dots> \<le> 1 - 1 / 2 ^ 51"
    proof -
      have "(of_nat ?N :: rat) \<le> of_nat (2 ^ 51)"
        using n by (simp only: of_nat_le_iff)
      then have "(of_nat ?N :: rat) \<le> 2 ^ 51" by simp
      then have "1 / (2 ^ 51 :: rat) \<le> 1 / of_nat ?N"
        using Nr by (simp add: frac_le)
      then show ?thesis by linarith
    qed
    finally have "qw + ql \<le> 1 - 1 / 2 ^ 51" .
    then have "(qw + ql) * (100 + 100 / 2 ^ 51) \<le> (1 - 1 / 2 ^ 51) * (100 + 100 / 2 ^ 51)"
      by (rule mult_right_mono) simp
    also have "\<dots> < (100::rat)" by simp
    finally show ?thesis using bound by linarith
  qed
  have mw: "metric_named ''Win Rate'' (default_metrics m) = Some (Num w)"
    using assms(1) m N
    by (clarsimp simp: calculate_metrics_def Let_def metric_named_def w_def
        split: sum.splits split del: if_split cong: if_cong)
  have ml: "metric_named ''Loss Rate'' (default_metrics m) = Some (Num l)"
    using assms(1) m N
    by (clarsimp simp: calculate_metrics_def Let_def metric_named_def l_def
        split: sum.splits split del: if_split cong: if_cong)
  show ?thesis
    using m mw ml count all up eq less unfolding w_def l_def by blast
qed

text \<open>
  The theorem at the scenario, where no record has a profit of 0, and at the scenario with
  a third record of profit 0, where the rates are 33.33333333333333 each.
\<close>

theorem win_loss_rates_witness:
  "rows scenario_records \<noteq> [] \<and> \<not> duration_overflows scenario_records
   \<and> 0 \<notin> set (map deal.profit (rows scenario_records))
   \<and> (\<exists>m win_rate loss_rate.
        calculate_metrics scenario_records scenario_account = Inr m
      \<and> metric_named ''Win Rate'' (default_metrics m) = Some (Num win_rate)
      \<and> metric_named ''Loss Rate'' (default_metrics m) = Some (Num loss_rate)
      \<and> win_rate + loss_rate \<le> 100 + 100 / 2 ^ 51
      \<and> \<bar>win_rate + loss_rate - 100\<bar> \<le> 100 / 2 ^ 51)
   \<and> rows scenario_with_zero \<noteq> [] \<and> \<not> duration_overflows scenario_with_zero
   \<and> 0 \<in> set (map deal.profit (rows scenario_with_zero))
   \<and> length (rows scenario_with_zero) \<le> 2 ^ 51
   \<and> (\<exists>m win_rate loss_rate.
        calculate_metrics scenario_with_zero scenario_account = Inr m
      \<and> metric_named ''Win Rate'' (default_metrics m) = Some (Num win_rate)
      \<and> metric_named ''Loss Rate'' (default_metrics m) = Some (Num loss_rate)
      \<and> win_rate + loss_rate < 100)"
proof -
  have h: "rows scenario_records \<noteq> []"
    by (simp add: scenario_records_def)
  have o: "\<not> duration_overflows scenario_records"
    by (simp add: duration_overflows_def scenario_records_def)
  have z: "\<forall>t\<in>set (rows scenario_records). deal.profit t \<noteq> 0"
    by (simp add: scenario_records_def)
  have h': "rows scenario_with_zero \<noteq> []"
    by (simp add: scenario_with_zero_def)
  have o': "\<not> duration_overflows scenario_with_zero"
    by (simp add: duration_overflows_def scenario_with_zero_def)
  have z': "\<exists>t\<in>set (rows scenario_with_zero). deal.profit t = 0"
    by (simp add: scenario_with_zero_def)
  have n': "length (rows scenario_with_zero) \<le> 2 ^ 51"
    by (simp add: scenario_with_zero_def)
  have first: "\<exists>m win_rate loss_rate.
        calculate_metrics scenario_records scenario_account = Inr m
      \<and> metric_named ''Win Rate'' (default_metrics m) = Some (Num win_rate)
      \<and> metric_named ''Loss Rate'' (default_metrics m) = Some (Num loss_rate)
      \<and> win_rate + loss_rate \<le> 100 + 100 / 2 ^ 51
      \<and> \<bar>win_rate + loss_rate - 100\<bar> \<le> 100 / 2 ^ 51"
    using win_loss_rates [OF h o, of scenario_account] z by blast
  have second: "\<exists>m win_rate loss_rate.
        calculate_metrics scenario_with_zero scenario_account = Inr m
      \<and> metric_named ''Win Rate'' (default_metrics m) = Some (Num win_rate)
      \<and> metric_named ''Loss Rate'' (default_metrics m) = Some (Num loss_rate)
      \<and> win_rate + loss_rate < 100"
    using win_loss_rates [OF h' o', of scenario_account] z' n' by blast
  have z0: "0 \<notin> set (map deal.profit (rows scenario_records))"
    by (simp add: scenario_records_def)
  have z1: "0 \<in> set (map deal.profit (rows scenario_with_zero))"
    by (simp add: scenario_with_zero_def)
  show ?thesis
    using h o z0 first h' o' z1 n' second by blast
qed

subsection \<open>The profit factor without a loss\<close>

text \<open>
  Claim C5. For every frame and account snapshot, whenever the Gross Loss that
  \<open>calculate_metrics\<close> returns is 0, the Profit Factor is 0, whatever the Gross Profit.
\<close>

theorem profit_factor_zero:
  assumes "calculate_metrics trades_df account_info = Inr m"
    and "metric_named ''Gross Loss'' (default_metrics m) = Some (Num 0)"
  shows "metric_named ''Profit Factor'' (default_metrics m) = Some (Num 0)"
proof (cases "rows trades_df = []")
  case True
  with assms(1) show ?thesis
    by (auto simp: calculate_metrics_def metric_named_def)
next
  case False
  with assms show ?thesis
    by (clarsimp simp: calculate_metrics_def Let_def metric_named_def
        split: sum.splits split del: if_split cong: if_cong)
qed

theorem profit_factor_zero_witness:
  "calculate_metrics (single_trade 5400) scenario_account = Inr (single_trade_result ''1:30:00'')
   \<and> metric_named ''Gross Loss'' (default_metrics (single_trade_result ''1:30:00''))
       = Some (Num 0)
   \<and> metric_named ''Gross Profit'' (default_metrics (single_trade_result ''1:30:00''))
       = Some (Num 100)
   \<and> metric_named ''Profit Factor'' (default_metrics (single_trade_result ''1:30:00''))
       = Some (Num 0)"
proof -
  have gl: "metric_named ''Gross Loss'' (default_metrics (single_trade_result ''1:30:00''))
      = Some (Num 0)"
    by (simp add: single_trade_result_def metric_named_def)
  have gp: "metric_named ''Gross Profit'' (default_metrics (single_trade_result ''1:30:00''))
      = Some (Num 100)"
    by (simp add: single_trade_result_def metric_named_def)
  from profit_factor_zero [OF single_trade_5400 gl] show ?thesis
    using single_trade_5400 gl gp by simp
qed

subsection \<open>The average trade duration\<close>

text \<open>
  Claim C6. For every frame with a row, the Average Trade Duration is the mean of
  \<^verbatim>\<open>time_update - time_setup\<close> over exactly the records in which both timestamps are present,
  formatted as \<^verbatim>\<open>H:MM:SS\<close> with unbounded hours, and \<^verbatim>\<open>0h\<close> when no duration could be computed
  or the mean is not positive; a mean of 5400 seconds gives \<^verbatim>\<open>1:30:00\<close>. The code says the
  same of itself: its comment reads \<^verbatim>\<open>Average Trade Duration (in hours, approximate)\<close>, the
  variable is \<^verbatim>\<open>avg_duration_hours\<close>, and the list of durations is filtered by the presence of
  both timestamps in each record. It misses the claim in two places.
  \<^item> The string of a \<^verbatim>\<open>timedelta\<close> counts the days apart from the hours: one record that was
    open for 90000 seconds gives \<^verbatim>\<open>1 day, 1:00:00\<close> where the claim gives \<^verbatim>\<open>25:00:00\<close>.
  \<^item> \<^verbatim>\<open>hasattr\<close> holds of every row of a frame that has the column, so a record without a
    timestamp is not left out: its duration is NaN, and so is the mean. Of two records,
    the first open for 5400 seconds and the second without its \<^verbatim>\<open>time_update\<close>, the code makes
    \<^verbatim>\<open>0h\<close> where the claim makes \<^verbatim>\<open>1:30:00\<close>.
  A mean of 5400 seconds over records that all have both timestamps gives \<^verbatim>\<open>1:30:00\<close>, as
  the claim says.
\<close>

theorem average_trade_duration_bug:
  "returned_metric ''Average Trade Duration''
       (calculate_metrics (single_trade 90000) scenario_account)
     = Some (Str ''1 day, 1:00:00'')
 \<and> spec_average_trade_duration (single_trade 90000) = ''25:00:00''
 \<and> returned_metric ''Average Trade Duration''
       (calculate_metrics missing_timestamp scenario_account)
     = Some (Str ''0h'')
 \<and> spec_average_trade_duration missing_timestamp = ''1:30:00''
 \<and> returned_metric ''Average Trade Duration''
       (calculate_metrics (single_trade 5400) scenario_account)
     = Some (Str ''1:30:00'')
 \<and> spec_average_trade_duration (single_trade 5400) = ''1:30:00''"
  by code_simp

subsection \<open>Gross profit and gross loss\<close>

text \<open>
  Claim C7. For every frame and account snapshot, with or without rows, the Gross Profit
  and the Gross Loss that \<open>calculate_metrics\<close> returns are numbers that are not negative.
\<close>

theorem gross_nonneg:
  assumes "calculate_metrics trades_df account_info = Inr m"
  shows "\<exists>gp gl. metric_named ''Gross Profit'' (default_metrics m) = Some (Num gp)
     \<and> metric_named ''Gross Loss'' (default_metrics m) = Some (Num gl)
     \<and> 0 \<le> gp \<and> 0 \<le> gl"
proof (cases "rows trades_df = []")
  case True
  with assms(1) show ?thesis
    by (auto simp: calculate_metrics_def metric_named_def)
next
  case False
  have "0 \<le> series_sum (map deal.profit (filter (\<lambda>t. 0 < deal.profit t) (rows trades_df)))"
    by (rule series_sum_nonneg) auto
  with False assms show ?thesis
    by (clarsimp simp: calculate_metrics_def Let_def metric_named_def
        split: sum.splits split del: if_split cong: if_cong)
qed

theorem gross_nonneg_witness:
  "calculate_metrics scenario_records scenario_account = Inr scenario_result
   \<and> (\<exists>gp gl. metric_named ''Gross Profit'' (default_metrics scenario_result) = Some (Num gp)
        \<and> metric_named ''Gross Loss'' (default_metrics scenario_result) = Some (Num gl)
        \<and> 0 \<le> gp \<and> 0 \<le> gl)"
  using gross_nonneg [OF scenario_value] scenario_value by blast

subsection \<open>Missing credentials\<close>

text \<open>
  Claim C8 says that a body of \<^verbatim>\<open>POST /connect\<close> in which the login, the password or the
  server is missing is answered with the status 400 and the error
  \<^verbatim>\<open>Missing required credentials\<close>, without any effect on the session. The handler checks
  the three values for it, but converts the login before the check: a body without a
  login raises \<^verbatim>\<open>TypeError\<close> in \<^verbatim>\<open>int(None)\<close>, and no response with the status 400 is
  returned.
\<close>

theorem connect_missing_login:
  "connect_mt5 mt5
     \<lparr>login = None, password = Some ''secret'', server = Some ''Demo'', path = None\<rparr>
   = \<lparr>outcome = Inl TypeError, calls = []\<rparr>"
  by (simp add: connect_mt5_def)

text \<open>
  With a login in the body the check does what the claim says: a login of 0, or a password
  or server that is missing or empty, gives the status 400 before any call of the
  terminal.
\<close>

lemma connect_missing_password_or_server:
  assumes "login data = Some l"
    and "l = 0 \<or> \<not> truthy (password data) \<or> \<not> truthy (server data)"
  shows "connect_mt5 mt5 data =
    \<lparr>outcome = Inr \<lparr>status = 400, success = False,
                     error = Some ''Missing required credentials'', metrics = None\<rparr>,
     calls = []\<rparr>"
  using assms by (auto simp: connect_mt5_def Let_def)

subsection \<open>The names and flags of the metrics\<close>

text \<open>
  Claim C10. For every frame and account snapshot, with or without rows, the default list
  that \<open>calculate_metrics\<close> returns has exactly 14 metrics with the same names in the same
  order, none of them custom, and every metric of the custom list is custom.
\<close>

theorem metric_names_fixed:
  assumes "calculate_metrics trades_df account_info = Inr m"
  shows "map name (default_metrics m) =
      [''Lots'', ''Avg. RRR'', ''Win Rate'', ''Loss Rate'', ''Profit Factor'', ''Best Trade'',
       ''Worst Trade'', ''Long Won'', ''Short Won'', ''Gross Profit'', ''Gross Loss'',
       ''Average Trade Duration'', ''Average Profit per Trade'', ''Average Loss per Trade'']
    \<and> length (default_metrics m) = 14
    \<and> (\<forall>x\<in>set (default_metrics m). \<not> isCustom x)
    \<and> (\<forall>x\<in>set (custom_metrics m). isCustom x)"
proof (cases "rows trades_df = []")
  case True
  with assms(1) show ?thesis
    by (auto simp: calculate_metrics_def)
next
  case False
  with assms show ?thesis
    by (clarsimp simp: calculate_metrics_def Let_def
        split: sum.splits split del: if_split cong: if_cong)
qed

theorem metric_names_fixed_witness:
  "calculate_metrics scenario_records scenario_account = Inr scenario_result
   \<and> map name (default_metrics scenario_result) =
      [''Lots'', ''Avg. RRR'', ''Win Rate'', ''Loss Rate'', ''Profit Factor'', ''Best Trade'',
       ''Worst Trade'', ''Long Won'', ''Short Won'', ''Gross Profit'', ''Gross Loss'',
       ''Average Trade Duration'', ''Average Profit per Trade'', ''Average Loss per Trade'']
   \<and> length (default_metrics scenario_result) = 14
   \<and> list_all (\<lambda>x. \<not> isCustom x) (default_metrics scenario_result)
   \<and> list_all isCustom (custom_metrics scenario_result)"
  using metric_names_fixed [OF scenario_value] scenario_value
  by (simp add: list_all_iff)



end
